theory Spec2Isabelle
  imports Complex_Main
begin

section \<open>Data model of the viva session engine\<close>

text \<open>
  The engine lives in \<^verbatim>\<open>backend/app/api/api_v1/endpoints/viva.py\<close> (the three
  mutating endpoints \<^verbatim>\<open>update_viva_session\<close>, \<^verbatim>\<open>start_viva_session\<close> and
  \<^verbatim>\<open>submit_viva_response\<close>) and in \<^verbatim>\<open>backend/app/services/ai_service.py\<close>
  (the adapter around the remote model). Python numbers (\<^verbatim>\<open>int\<close> counters,
  \<^verbatim>\<open>float\<close> scores) are modelled exactly: counters as \<open>int\<close>, scores as
  \<open>rat\<close>, so rounding of binary floating point is outside the model.
  \<^verbatim>\<open>datetime.utcnow()\<close> is a parameter \<open>now\<close> of each operation.
\<close>

text \<open>
  Modelled from the spec: the members of the enumerations \<^verbatim>\<open>VivaSessionStatus\<close>,
  \<^verbatim>\<open>VivaSessionType\<close> and \<^verbatim>\<open>UserRole\<close>. They are declared in
  \<^verbatim>\<open>backend/app/models/\<close>, which the endpoints only import; the members below are
  the ones the endpoints and the specification name.
\<close>

datatype VivaSessionStatus = SCHEDULED | IN_PROGRESS | COMPLETED

datatype VivaSessionType = MOCK | FINAL

datatype UserRole = STUDENT | TEACHER

record User =
  user_id :: int
  role :: UserRole

text \<open>
  One question/response pair (\<^verbatim>\<open>VivaResponse\<close>). The field types are those of
  \<^verbatim>\<open>VivaResponseResponse\<close> in \<^verbatim>\<open>schemas/viva.py\<close>; \<open>None\<close> is SQL NULL.
\<close>

record VivaResponse =
  question_text :: string
  response_text :: "string option"
  response_audio_path :: "string option"
  response_timestamp :: "rat option"
  response_duration :: "rat option"
  confidence_score :: "rat option"
  accuracy_score :: "rat option"
  completeness_score :: "rat option"
  ai_feedback :: "string option"
  score :: "rat option"
  max_score :: "rat option"
  order_index :: int

text \<open>
  One interview (\<^verbatim>\<open>VivaSession\<close>) together with its turns (the relationship
  \<^verbatim>\<open>session.responses\<close>), in the order in which they were added.
\<close>

record VivaSession =
  session_id :: int
  submission_id :: int
  student_id :: int
  session_type :: VivaSessionType
  status :: VivaSessionStatus
  video_file_path :: "string option"
  audio_file_path :: "string option"
  transcript_file_path :: "string option"
  duration_seconds :: "int option"
  questions_asked :: int
  questions_answered :: int
  overall_confidence_score :: "rat option"
  communication_score :: "rat option"
  technical_accuracy_score :: "rat option"
  total_score :: "rat option"
  max_possible_score :: "rat option"
  started_at :: "nat option"
  completed_at :: "nat option"
  responses :: "VivaResponse list"

text \<open>The request body of \<^verbatim>\<open>submit_viva_response\<close> (\<^verbatim>\<open>VivaResponseCreate\<close>).\<close>

record VivaResponseCreate =
  req_question_text :: string
  req_response_text :: "string option"
  req_response_audio_path :: "string option"
  req_question_timestamp :: "rat option"
  req_response_timestamp :: "rat option"
  req_response_duration :: "rat option"

text \<open>
  The request body of \<^verbatim>\<open>update_viva_session\<close> (\<^verbatim>\<open>VivaSessionUpdate\<close>). The
  endpoint reads it with \<^verbatim>\<open>dict(exclude_unset=True)\<close>: for the four plain fields the
  outer \<open>None\<close> is a field absent from the request and \<open>Some None\<close> an explicit
  null. For \<open>upd_status\<close>, \<open>None\<close> is an absent field (an explicit null status is
  not modelled).
\<close>

record VivaSessionUpdate =
  upd_status :: "VivaSessionStatus option"
  upd_video_file_path :: "string option option"
  upd_audio_file_path :: "string option option"
  upd_transcript_file_path :: "string option option"
  upd_duration_seconds :: "int option option"

text \<open>
  The viva part of \<^verbatim>\<open>Settings\<close> (\<^verbatim>\<open>core/config.py\<close>, lines 85 to 88), with the
  defaults used when the environment sets nothing.
\<close>

record Settings =
  DEFAULT_VIVA_DURATION_MINUTES :: int
  MAX_VIVA_QUESTIONS :: int
  MIN_VIVA_QUESTIONS :: int

definition settings :: Settings where
  "settings = \<lparr>DEFAULT_VIVA_DURATION_MINUTES = 30, MAX_VIVA_QUESTIONS = 10,
     MIN_VIVA_QUESTIONS = 3\<rparr>"

text \<open>A failed request: the status code and detail of the \<^verbatim>\<open>HTTPException\<close>.\<close>

datatype http_error = HTTPException nat string

section \<open>The adapter (\<^verbatim>\<open>AIService\<close>)\<close>

text \<open>
  What \<^verbatim>\<open>json.loads\<close> returns. An object is the list of its members;
  \<open>map_of\<close> looks a key up.
\<close>

datatype json =
    JNull
  | JBool bool
  | JNum rat
  | JStr string
  | JArr "json list"
  | JObj "(string \<times> json) list"

text \<open>
  The outcome of one call of the remote model, as the adapter sees it:
  \<^verbatim>\<open>openai.ChatCompletion.create\<close> (or reading the content of its reply) raised;
  the content is not JSON, so \<^verbatim>\<open>json.loads\<close> raises; or the content parsed.
\<close>

datatype upstream_reply =
    TransportFailure
  | NotJSON string
  | Payload json

record AIQuestionResponse =
  question :: string
  expected_keywords :: "string list"
  follow_up_questions :: "string list"
  scoring_criteria :: "(string \<times> json) list"

definition fallback_question :: AIQuestionResponse where
  "fallback_question =
     \<lparr>question = ''Can you explain the main concepts from your assignment in your own words?'',
      expected_keywords = [''concept'', ''understanding'', ''explanation''],
      follow_up_questions = [''Can you provide an example?'', ''How would you apply this?''],
      scoring_criteria =
        [(''excellent'', JStr ''Clear explanation with examples and applications''),
         (''good'', JStr ''Good understanding with minor gaps''),
         (''satisfactory'', JStr ''Basic understanding demonstrated''),
         (''needs_improvement'', JStr ''Limited understanding shown'')]\<rparr>"

text \<open>
  Validation by the pydantic model \<^verbatim>\<open>AIQuestionResponse\<close>: \<^verbatim>\<open>str\<close>,
  \<^verbatim>\<open>List[str]\<close> and \<^verbatim>\<open>dict\<close> fields accept a JSON string, an array of
  strings and an object; anything else raises.
\<close>

definition as_str :: "json \<Rightarrow> string option" where
  "as_str j = (case j of JStr s \<Rightarrow> Some s | _ \<Rightarrow> None)"

fun as_str_list_items :: "json list \<Rightarrow> string list option" where
  "as_str_list_items [] = Some []"
| "as_str_list_items (j # js) =
     (case as_str j of
        None \<Rightarrow> None
      | Some s \<Rightarrow> (case as_str_list_items js of None \<Rightarrow> None | Some ss \<Rightarrow> Some (s # ss)))"

definition as_str_list :: "json \<Rightarrow> string list option" where
  "as_str_list j = (case j of JArr js \<Rightarrow> as_str_list_items js | _ \<Rightarrow> None)"

definition as_dict :: "json \<Rightarrow> (string \<times> json) list option" where
  "as_dict j = (case j of JObj kv \<Rightarrow> Some kv | _ \<Rightarrow> None)"

text \<open>
  \<^verbatim>\<open>generate_viva_question\<close>, lines 55 to 88. The prompt built from the request only
  reaches the remote model, whose reply is the parameter here. Inside the \<^verbatim>\<open>try\<close>:
  subscripting the parsed reply with the four keys in turn (a reply that is no object,
  or a missing key, raises) and building the pydantic model. Every exception ends in
  the \<^verbatim>\<open>except\<close> branch, which returns the fallback question.
\<close>

definition generate_viva_question :: "upstream_reply \<Rightarrow> AIQuestionResponse" where
  "generate_viva_question reply =
     (case reply of
        Payload (JObj question_data) \<Rightarrow>
          (case map_of question_data ''question'' of
             None \<Rightarrow> fallback_question
           | Some q \<Rightarrow>
          (case map_of question_data ''expected_keywords'' of
             None \<Rightarrow> fallback_question
           | Some ek \<Rightarrow>
          (case map_of question_data ''follow_up_questions'' of
             None \<Rightarrow> fallback_question
           | Some fu \<Rightarrow>
          (case map_of question_data ''scoring_criteria'' of
             None \<Rightarrow> fallback_question
           | Some sc \<Rightarrow>
          (case (as_str q, as_str_list ek, as_str_list fu, as_dict sc) of
             (Some q', Some ek', Some fu', Some sc') \<Rightarrow>
               \<lparr>question = q', expected_keywords = ek', follow_up_questions = fu',
                scoring_criteria = sc'\<rparr>
           | _ \<Rightarrow> fallback_question)))))
      | _ \<Rightarrow> fallback_question)"

definition fallback_evaluation :: json where
  "fallback_evaluation =
     JObj [(''accuracy_score'', JNum (7 / 10)),
           (''completeness_score'', JNum (7 / 10)),
           (''confidence_score'', JNum (7 / 10)),
           (''keywords_matched'', JArr []),
           (''overall_score'', JNum (7 / 10)),
           (''feedback'', JStr ''Response received and recorded. Manual review recommended.''),
           (''strengths'', JArr [JStr ''Attempted to answer the question'']),
           (''areas_for_improvement'', JArr [JStr ''Could provide more detail''])]"

text \<open>
  \<^verbatim>\<open>evaluate_viva_response\<close>, lines 126 to 153: the parsed reply is returned as it
  is; the fallback is returned when the call or \<^verbatim>\<open>json.loads\<close> raises.
\<close>

definition evaluate_viva_response :: "upstream_reply \<Rightarrow> json" where
  "evaluate_viva_response reply =
     (case reply of Payload evaluation \<Rightarrow> evaluation | _ \<Rightarrow> fallback_evaluation)"

section \<open>Aggregate scores\<close>

text \<open>
  Lines 387 to 397 of \<^verbatim>\<open>submit_viva_response\<close>. \<open>or0 x\<close> is Python's
  \<^verbatim>\<open>x or 0\<close> and \<open>truthy x\<close> the condition \<^verbatim>\<open>if x\<close> on an optional number.
\<close>

definition or0 :: "rat option \<Rightarrow> rat" where
  "or0 x = (case x of None \<Rightarrow> 0 | Some v \<Rightarrow> v)"

definition truthy :: "rat option \<Rightarrow> bool" where
  "truthy x = (case x of None \<Rightarrow> False | Some v \<Rightarrow> v \<noteq> 0)"

definition calculate_overall_scores :: "VivaSession \<Rightarrow> VivaSession" where
  "calculate_overall_scores session =
     (let rs = responses session;
          total = sum_list (map (\<lambda>r. or0 (score r)) (filter (\<lambda>r. truthy (score r)) rs));
          max_possible =
            sum_list (map (\<lambda>r. or0 (max_score r)) (filter (\<lambda>r. truthy (max_score r)) rs));
          session1 = session\<lparr>total_score := Some total, max_possible_score := Some max_possible\<rparr>
      in if rs \<noteq> [] then
           session1\<lparr>overall_confidence_score :=
                       Some (sum_list (map (\<lambda>r. or0 (confidence_score r)) rs) / of_nat (length rs)),
                     communication_score :=
                       Some (sum_list (map (\<lambda>r. or0 (confidence_score r)) rs) / of_nat (length rs)),
                     technical_accuracy_score :=
                       Some (sum_list (map (\<lambda>r. or0 (accuracy_score r)) rs) / of_nat (length rs))\<rparr>
         else session1)"

section \<open>The turn ledger\<close>

text \<open>
  A turn as \<^verbatim>\<open>VivaResponse(viva_session_id=..., question_text=..., order_index=...)\<close>
  creates it: every other column is NULL. (The database id, \<^verbatim>\<open>created_at\<close> and
  \<^verbatim>\<open>is_follow_up\<close> play no part in the engine and are left out.)
\<close>

definition new_response :: "string \<Rightarrow> int \<Rightarrow> VivaResponse" where
  "new_response q idx =
     \<lparr>question_text = q, response_text = None, response_audio_path = None,
      response_timestamp = None, response_duration = None, confidence_score = None,
      accuracy_score = None, completeness_score = None, ai_feedback = None,
      score = None, max_score = None, order_index = idx\<rparr>"

text \<open>
  Lines 291 to 294: among the turns of the session whose \<^verbatim>\<open>response_text\<close> is NULL,
  the first one in descending \<^verbatim>\<open>order_index\<close>. The result is the position of that
  turn in \<open>responses\<close>; \<open>None\<close> when the query finds nothing. Where two such turns
  carry the same index the database is free to return either; the model takes the one
  added first.
\<close>

fun current_response :: "VivaResponse list \<Rightarrow> nat option" where
  "current_response [] = None"
| "current_response (r # rs) =
     (case current_response rs of
        None \<Rightarrow> (if response_text r = None then Some 0 else None)
      | Some j \<Rightarrow>
          (if response_text r = None \<and> order_index (rs ! j) \<le> order_index r then Some 0
           else Some (Suc j)))"

section \<open>Recording an evaluation on a turn\<close>

text \<open>\<^verbatim>\<open>evaluation.get(key)\<close> on a dict: \<^verbatim>\<open>None\<close> for a missing key.\<close>

definition py_get :: "(string \<times> json) list \<Rightarrow> string \<Rightarrow> json" where
  "py_get kv k = (case map_of kv k of None \<Rightarrow> JNull | Some v \<Rightarrow> v)"

text \<open>
  \<^verbatim>\<open>v * 10\<close> in Python: a number is multiplied (\<^verbatim>\<open>True\<close> counts as 1), a string
  or a list is repeated ten times, and \<^verbatim>\<open>None\<close> or a dict raise \<^verbatim>\<open>TypeError\<close>
  (the result \<open>None\<close> here).
\<close>

fun times10 :: "json \<Rightarrow> json option" where
  "times10 JNull = None"
| "times10 (JBool b) = Some (JNum (if b then 10 else 0))"
| "times10 (JNum x) = Some (JNum (x * 10))"
| "times10 (JStr s) = Some (JStr (concat (replicate 10 s)))"
| "times10 (JArr xs) = Some (JArr (concat (replicate 10 xs)))"
| "times10 (JObj kv) = None"

text \<open>
  Modelled from the spec: the column types of \<^verbatim>\<open>VivaResponse\<close> (the declaration in
  \<^verbatim>\<open>models/viva_session.py\<close> is not part of the sources). Following the types of
  \<^verbatim>\<open>VivaResponseResponse\<close>, the score columns hold a number or NULL and the feedback
  column a string or NULL. A value of another type makes \<^verbatim>\<open>db.commit()\<close> at line 333
  raise (the result \<open>None\<close> here); no handler is around that call.
\<close>

fun float_column :: "json \<Rightarrow> rat option option" where
  "float_column JNull = Some None"
| "float_column (JNum x) = Some (Some x)"
| "float_column _ = None"

fun text_column :: "json \<Rightarrow> string option option" where
  "text_column JNull = Some None"
| "text_column (JStr s) = Some (Some s)"
| "text_column _ = None"

text \<open>
  Lines 311 to 333. An evaluation that is no dict raises at the first \<^verbatim>\<open>.get\<close>,
  before any field is assigned; \<^verbatim>\<open>TypeError\<close> from the multiplication comes after
  the four other fields were assigned. Both end in the \<^verbatim>\<open>except\<close> branch, which
  sets score 7 of 10. The result is \<open>None\<close> when the commit raises.
\<close>

definition apply_evaluation :: "json \<Rightarrow> VivaResponse \<Rightarrow> VivaResponse option" where
  "apply_evaluation evaluation r =
     (case evaluation of
        JObj kv \<Rightarrow>
          (case (float_column (py_get kv ''confidence_score''),
                 float_column (py_get kv ''accuracy_score''),
                 float_column (py_get kv ''completeness_score''),
                 text_column (py_get kv ''feedback''),
                 (case times10 (case map_of kv ''overall_score'' of None \<Rightarrow> JNum 0 | Some v \<Rightarrow> v) of
                    None \<Rightarrow> Some (Some 7)
                  | Some v \<Rightarrow> float_column v)) of
             (Some c, Some a, Some k, Some f, Some sc) \<Rightarrow>
               Some (r\<lparr>confidence_score := c, accuracy_score := a, completeness_score := k,
                        ai_feedback := f, score := sc, max_score := Some 10\<rparr>)
           | _ \<Rightarrow> None)
      | _ \<Rightarrow> Some (r\<lparr>score := Some 7, max_score := Some 10\<rparr>))"

section \<open>The endpoints\<close>

text \<open>
  The first argument of each endpoint is what the query for the session id returned
  (\<open>None\<close>: no such row); \<open>current_user\<close> is the authenticated, active user.
  A request that fails before its first commit leaves the stored session as it was.

  What becomes of the part of a request that asks for a question and commits it (the
  \<^verbatim>\<open>try\<close> block of lines 232 to 253, that of lines 338 to 376, and the closing
  commit of line 399):
  \<^item> \<open>Raised\<close>: a statement of the \<^verbatim>\<open>try\<close> block other than its commit raised,
    before a turn was added (for instance the submission row is gone);
  \<^item> \<open>Replied reply\<close>: the block ran, the remote model answered the adapter with
    \<open>reply\<close>, and the database committed;
  \<^item> \<open>CommitFailed\<close>: the database refused the commit that closes the request
    (line 245; line 369 or line 399).
\<close>

datatype generation_outcome = Raised | Replied upstream_reply | CommitFailed

datatype start_result = Started int string

datatype submit_result = NextQuestion string | SessionComplete rat rat

text \<open>\<^verbatim>\<open>update_viva_session\<close>, lines 134 to 173.\<close>

definition set_field :: "'a option \<Rightarrow> 'a \<Rightarrow> 'a" where
  "set_field upd old = (case upd of None \<Rightarrow> old | Some v \<Rightarrow> v)"

definition update_viva_session ::
  "VivaSession option \<Rightarrow> User \<Rightarrow> VivaSessionUpdate \<Rightarrow> nat \<Rightarrow> http_error + VivaSession" where
  "update_viva_session found current_user session_data now =
     (case found of
        None \<Rightarrow> Inl (HTTPException 404 ''Viva session not found'')
      | Some session \<Rightarrow>
          if role current_user = STUDENT \<and> student_id session \<noteq> user_id current_user then
            Inl (HTTPException 403 ''Not authorized to update this viva session'')
          else
            (let session1 = session
                   \<lparr>status := set_field (upd_status session_data) (status session),
                    video_file_path :=
                      set_field (upd_video_file_path session_data) (video_file_path session),
                    audio_file_path :=
                      set_field (upd_audio_file_path session_data) (audio_file_path session),
                    transcript_file_path :=
                      set_field (upd_transcript_file_path session_data) (transcript_file_path session),
                    duration_seconds :=
                      set_field (upd_duration_seconds session_data) (duration_seconds session)\<rparr>
             in Inr
                 (case upd_status session_data of
                    None \<Rightarrow> session1
                  | Some st \<Rightarrow>
                      if st = IN_PROGRESS \<and> started_at session1 = None then
                        session1\<lparr>started_at := Some now\<rparr>
                      else if st = COMPLETED \<and> completed_at session1 = None then
                        session1\<lparr>completed_at := Some now\<rparr>
                      else session1)))"

text \<open>
  \<^verbatim>\<open>start_viva_session\<close>, lines 176 to 259. The role check is the dependency
  \<^verbatim>\<open>get_current_student\<close>, which runs before the body. The only commit, line 245,
  is inside the \<^verbatim>\<open>try\<close> block: when it raises, the handler answers HTTP 500 and
  nothing is stored.
\<close>

definition start_viva_session ::
  "VivaSession option \<Rightarrow> User \<Rightarrow> generation_outcome \<Rightarrow> nat
     \<Rightarrow> http_error + VivaSession \<times> start_result" where
  "start_viva_session found current_user gen now =
     (if role current_user \<noteq> STUDENT then
        Inl (HTTPException 403 ''Not enough permissions. Student role required.'')
      else case found of
        None \<Rightarrow> Inl (HTTPException 404 ''Viva session not found'')
      | Some session \<Rightarrow>
          if student_id session \<noteq> user_id current_user then
            Inl (HTTPException 403 ''Not authorized to start this viva session'')
          else if status session \<noteq> SCHEDULED then
            Inl (HTTPException 400 ''Session is not in scheduled state'')
          else
            (case gen of
               Raised \<Rightarrow> Inl (HTTPException 500 ''Failed to generate first question'')
             | CommitFailed \<Rightarrow> Inl (HTTPException 500 ''Failed to generate first question'')
             | Replied reply \<Rightarrow>
                 (let ai_response = generate_viva_question reply;
                      viva_response = new_response (question ai_response) 1
                  in Inr (session\<lparr>status := IN_PROGRESS, started_at := Some now,
                                  responses := responses session @ [viva_response],
                                  questions_asked := 1\<rparr>,
                          Started (session_id session) (question ai_response)))))"

text \<open>Lines 382 to 406: the end of the session.\<close>

definition end_session :: "VivaSession \<Rightarrow> nat \<Rightarrow> VivaSession \<times> submit_result" where
  "end_session session now =
     (let session1 = calculate_overall_scores (session\<lparr>status := COMPLETED, completed_at := Some now\<rparr>)
      in (session1, SessionComplete (or0 (total_score session1)) (or0 (max_possible_score session1))))"

text \<open>
  Lines 335 to 406: another question, or the end of the session; the result is the reply
  and the session as the closing commit stores it. When the commit of line 369 raises,
  the handler of line 378 swallows the exception and lines 383 to 399 run on a database
  session whose transaction has failed, so they raise in turn; when the commit of
  line 399 raises, nothing catches it. Either way the request answers HTTP 500 and what
  stays stored is the session that line 333 committed.
\<close>

definition next_or_finish ::
  "VivaSession \<Rightarrow> generation_outcome \<Rightarrow> nat \<Rightarrow> http_error + VivaSession \<times> submit_result" where
  "next_or_finish session gen now =
     (if questions_asked session < 5 then
        (case gen of
           Replied reply \<Rightarrow>
             (let ai_response = generate_viva_question reply;
                  next_response = new_response (question ai_response) (questions_asked session + 1)
              in Inr (session\<lparr>responses := responses session @ [next_response],
                              questions_asked := questions_asked session + 1\<rparr>,
                      NextQuestion (question ai_response)))
         | Raised \<Rightarrow> Inr (end_session session now)
         | CommitFailed \<Rightarrow> Inl (HTTPException 500 ''Internal Server Error''))
      else
        (case gen of
           CommitFailed \<Rightarrow> Inl (HTTPException 500 ''Internal Server Error'')
         | _ \<Rightarrow> Inr (end_session session now)))"

text \<open>
  Lines 262 to 333 of \<^verbatim>\<open>submit_viva_response\<close>: the checks, the response and its
  evaluation written on the pending turn, the counter of answers, and the first commit.
  The result is the session as line 333 commits it; when that commit raises, the request
  answers HTTP 500 and nothing is stored.
\<close>

definition record_answer ::
  "VivaSession option \<Rightarrow> User \<Rightarrow> VivaResponseCreate \<Rightarrow> upstream_reply
     \<Rightarrow> http_error + VivaSession" where
  "record_answer found current_user response_data eval_reply =
     (if role current_user \<noteq> STUDENT then
        Inl (HTTPException 403 ''Not enough permissions. Student role required.'')
      else case found of
        None \<Rightarrow> Inl (HTTPException 404 ''Viva session not found'')
      | Some session \<Rightarrow>
          if student_id session \<noteq> user_id current_user then
            Inl (HTTPException 403 ''Not authorized to respond in this viva session'')
          else if status session \<noteq> IN_PROGRESS then
            Inl (HTTPException 400 ''Session is not in progress'')
          else
            (case current_response (responses session) of
               None \<Rightarrow> Inl (HTTPException 400 ''No pending question to respond to'')
             | Some i \<Rightarrow>
                 (let r = (responses session ! i)
                        \<lparr>response_text := req_response_text response_data,
                         response_audio_path := req_response_audio_path response_data,
                         response_timestamp := req_response_timestamp response_data,
                         response_duration := req_response_duration response_data\<rparr>
                  in case apply_evaluation (evaluate_viva_response eval_reply) r of
                       None \<Rightarrow> Inl (HTTPException 500 ''Internal Server Error'')
                     | Some r' \<Rightarrow>
                         Inr (session\<lparr>responses := (responses session)[i := r'],
                                      questions_answered := questions_answered session + 1\<rparr>))))"

text \<open>\<^verbatim>\<open>submit_viva_response\<close>, lines 262 to 406: the reply to the request.\<close>

definition submit_viva_response ::
  "VivaSession option \<Rightarrow> User \<Rightarrow> VivaResponseCreate \<Rightarrow> upstream_reply \<Rightarrow> generation_outcome
     \<Rightarrow> nat \<Rightarrow> http_error + VivaSession \<times> submit_result" where
  "submit_viva_response found current_user response_data eval_reply gen now =
     (case record_answer found current_user response_data eval_reply of
        Inl e \<Rightarrow> Inl e
      | Inr session1 \<Rightarrow> next_or_finish session1 gen now)"

section \<open>Sequences of operations on one session\<close>

text \<open>
  Modelled from the spec: the column defaults of \<^verbatim>\<open>VivaSession\<close>, declared in
  \<^verbatim>\<open>models/viva_session.py\<close>, which is not part of the sources. The row is the one
  \<^verbatim>\<open>create_viva_session\<close> adds (lines 60 to 65), with status
  \<^verbatim>\<open>SCHEDULED\<close>; the columns its constructor does not set are 0 for the two
  counters (as in \<^verbatim>\<open>VivaSessionResponse\<close>) and NULL for the rest.
\<close>

definition new_viva_session :: "int \<Rightarrow> int \<Rightarrow> int \<Rightarrow> VivaSessionType \<Rightarrow> VivaSession" where
  "new_viva_session sid sub student ty =
     \<lparr>session_id = sid, submission_id = sub, student_id = student, session_type = ty,
      status = SCHEDULED, video_file_path = None, audio_file_path = None,
      transcript_file_path = None, duration_seconds = None, questions_asked = 0,
      questions_answered = 0, overall_confidence_score = None, communication_score = None,
      technical_accuracy_score = None, total_score = None, max_possible_score = None,
      started_at = None, completed_at = None, responses = []\<rparr>"

datatype operation =
    Start User generation_outcome nat
  | SubmitResponse User VivaResponseCreate upstream_reply generation_outcome nat
  | Update User VivaSessionUpdate nat

text \<open>
  The stored session after one request. A start or an update that fails stores nothing.
  A response that fails before line 333 stores nothing; one that fails later leaves what
  line 333 committed: the response and scores on the turn, and the counter of answers.
\<close>

fun apply_operation :: "VivaSession \<Rightarrow> operation \<Rightarrow> VivaSession" where
  "apply_operation s (Start u gen now) =
     (case start_viva_session (Some s) u gen now of Inl e \<Rightarrow> s | Inr (s', out) \<Rightarrow> s')"
| "apply_operation s (SubmitResponse u rd ev gen now) =
     (case record_answer (Some s) u rd ev of
        Inl e \<Rightarrow> s
      | Inr s1 \<Rightarrow> (case next_or_finish s1 gen now of Inl e \<Rightarrow> s1 | Inr (s', out) \<Rightarrow> s'))"
| "apply_operation s (Update u upd now) =
     (case update_viva_session (Some s) u upd now of Inl e \<Rightarrow> s | Inr s' \<Rightarrow> s')"

definition run :: "VivaSession \<Rightarrow> operation list \<Rightarrow> VivaSession" where
  "run s ops = foldl apply_operation s ops"

fun is_update :: "operation \<Rightarrow> bool" where
  "is_update (Update u upd now) = True"
| "is_update _ = False"

section \<open>Notions of the specification\<close>

text \<open>
  The expected shape of a generated question, as far as the specification states it:
  the question text is present, that is, the payload is an object whose member
  \<^verbatim>\<open>question\<close> is a string.
\<close>

definition question_text_present :: "json \<Rightarrow> bool" where
  "question_text_present j =
     (case j of
        JObj kv \<Rightarrow> (case map_of kv ''question'' of Some (JStr q) \<Rightarrow> True | _ \<Rightarrow> False)
      | _ \<Rightarrow> False)"

text \<open>
  The adapter cannot obtain a question: the call failed, the reply is not JSON, or the
  payload lacks the question text.
\<close>

definition generation_failed :: "upstream_reply \<Rightarrow> bool" where
  "generation_failed reply =
     (case reply of Payload j \<Rightarrow> \<not> question_text_present j | _ \<Rightarrow> True)"

text \<open>
  The expected shape of an evaluation: the four scores are present and lie in the
  interval from 0 to 1.
\<close>

fun unit_score :: "json option \<Rightarrow> bool" where
  "unit_score (Some (JNum x)) = (0 \<le> x \<and> x \<le> 1)"
| "unit_score _ = False"

definition scores_conform :: "json \<Rightarrow> bool" where
  "scores_conform j =
     (case j of
        JObj kv \<Rightarrow>
          unit_score (map_of kv ''accuracy_score'') \<and> unit_score (map_of kv ''completeness_score'')
          \<and> unit_score (map_of kv ''confidence_score'') \<and> unit_score (map_of kv ''overall_score'')
      | _ \<Rightarrow> False)"

text \<open>A finalized turn with the given score and maximal score, for examples.\<close>

definition scored_turn :: "rat \<Rightarrow> rat \<Rightarrow> VivaResponse" where
  "scored_turn sc mx =
     (new_response ''q'' 1)\<lparr>response_text := Some ''a'', score := Some sc, max_score := Some mx\<rparr>"



section \<open>Invariants and example inputs\<close>

text \<open>
  The continuation decision of lines 336 to 380: another question is asked when fewer
  than five were asked and the \<^verbatim>\<open>try\<close> block ran.
\<close>

definition continues :: "VivaSession \<Rightarrow> generation_outcome \<Rightarrow> bool" where
  "continues s gen =
     (questions_asked s < 5 \<and> (case gen of Replied reply \<Rightarrow> True | _ \<Rightarrow> False))"

text \<open>
  The position of a status along scheduled, in progress, completed.
\<close>

fun lifecycle_rank :: "VivaSessionStatus \<Rightarrow> nat" where
  "lifecycle_rank SCHEDULED = 0"
| "lifecycle_rank IN_PROGRESS = 1"
| "lifecycle_rank COMPLETED = 2"

text \<open>
  The invariant of the two counters behind \<open>answered \<le> asked\<close>.
\<close>

definition counters_inv :: "VivaSession \<Rightarrow> bool" where
  "counters_inv s =
     (case status s of
        SCHEDULED \<Rightarrow> questions_answered s = 0 \<and> questions_asked s = 0
      | IN_PROGRESS \<Rightarrow> questions_answered s < questions_asked s
      | COMPLETED \<Rightarrow> questions_answered s \<le> questions_asked s)"

text \<open>
  A request whose closing commit the database accepts; an update is not such a request.
\<close>

fun commits :: "operation \<Rightarrow> bool" where
  "commits (Start u gen now) = True"
| "commits (SubmitResponse u rd ev gen now) = (gen \<noteq> CommitFailed)"
| "commits (Update u upd now) = False"

text \<open>
  A turn the query of lines 291 to 294 can find: its \<^verbatim>\<open>response_text\<close> is NULL.
\<close>

definition pending :: "VivaResponse \<Rightarrow> bool" where
  "pending r = (response_text r = None)"

text \<open>
  The invariant behind the single pending turn.
\<close>

definition one_pending_inv :: "VivaSession \<Rightarrow> bool" where
  "one_pending_inv s =
     (length (filter pending (responses s)) \<le> 1 \<and> (status s = SCHEDULED \<longrightarrow> responses s = []))"

text \<open>
  The invariant of the counters when every response carries text: the answers counted
  and the turns still pending are together at most the questions asked.
\<close>

definition answered_inv :: "VivaSession \<Rightarrow> bool" where
  "answered_inv s =
     (questions_answered s + int (length (filter pending (responses s))) \<le> questions_asked s
      \<and> (status s = SCHEDULED \<longrightarrow> questions_answered s = 0 \<and> responses s = []))"

text \<open>
  A request of the respondent: a start, or a response whose text is not null.
\<close>

fun carries_text :: "operation \<Rightarrow> bool" where
  "carries_text (Start u gen now) = True"
| "carries_text (SubmitResponse u rd ev gen now) = (req_response_text rd \<noteq> None)"
| "carries_text (Update u upd now) = False"

text \<open>
  Concrete inputs for the instances below: a student, the session created for that
  student, request bodies, replies of the remote model, single requests, and a complete
  interview with a healthy adapter.
\<close>

definition example_student :: User where
  "example_student = \<lparr>user_id = 7, role = STUDENT\<rparr>"

definition example_session :: VivaSession where
  "example_session = new_viva_session 1 1 7 MOCK"

definition text_answer :: VivaResponseCreate where
  "text_answer = \<lparr>req_question_text = ''q'', req_response_text = Some ''a'',
     req_response_audio_path = None, req_question_timestamp = None,
     req_response_timestamp = None, req_response_duration = None\<rparr>"

definition empty_answer :: VivaResponseCreate where
  "empty_answer = \<lparr>req_question_text = ''q'', req_response_text = None,
     req_response_audio_path = None, req_question_timestamp = None,
     req_response_timestamp = None, req_response_duration = None\<rparr>"

definition healthy_question :: upstream_reply where
  "healthy_question = Payload (JObj [(''question'', JStr ''Why?''), (''expected_keywords'', JArr []),
     (''follow_up_questions'', JArr []), (''scoring_criteria'', JObj [])])"

definition healthy_evaluation :: upstream_reply where
  "healthy_evaluation = Payload (JObj [(''accuracy_score'', JNum (4 / 5)),
     (''completeness_score'', JNum (4 / 5)), (''confidence_score'', JNum (4 / 5)),
     (''overall_score'', JNum (4 / 5)), (''feedback'', JStr ''ok'')])"

definition reopen :: VivaSessionUpdate where
  "reopen = \<lparr>upd_status = Some IN_PROGRESS, upd_video_file_path = None,
     upd_audio_file_path = None, upd_transcript_file_path = None, upd_duration_seconds = None\<rparr>"

definition started_session :: VivaSession where
  "started_session = example_session\<lparr>status := IN_PROGRESS, started_at := Some 0,
      responses := [new_response (question fallback_question) 1], questions_asked := 1\<rparr>"

definition healthy_start :: operation where
  "healthy_start = Start example_student (Replied healthy_question) 0"

definition healthy_submit :: "nat \<Rightarrow> operation" where
  "healthy_submit now =
     SubmitResponse example_student text_answer healthy_evaluation (Replied healthy_question) now"

definition empty_submit :: "nat \<Rightarrow> operation" where
  "empty_submit now =
     SubmitResponse example_student empty_answer healthy_evaluation (Replied healthy_question) now"

definition unstored_empty_submit :: "nat \<Rightarrow> operation" where
  "unstored_empty_submit now =
     SubmitResponse example_student empty_answer healthy_evaluation CommitFailed now"



definition healthy_interview :: "operation list" where
  "healthy_interview = [healthy_start, healthy_submit 10, healthy_submit 20, healthy_submit 30,
     healthy_submit 40, healthy_submit 50]"

section \<open>Properties of the adapter\<close>

lemma generate_fallback_when_failed:
  "generation_failed reply \<Longrightarrow> generate_viva_question reply = fallback_question"
  by (auto simp: generation_failed_def question_text_present_def generate_viva_question_def as_str_def
           split: upstream_reply.splits json.splits option.splits)

text \<open>
  C7, as the code has it. \<^verbatim>\<open>generate_viva_question\<close> returns its fallback question
  for a payload without question text and for a reply that is not JSON, exactly as for a
  failed call. \<^verbatim>\<open>evaluate_viva_response\<close> returns its fallback only for a failed
  call or a reply that is not JSON: every parsed payload is handed back unchanged,
  whether or not its scores are present and within range.
\<close>

theorem adapter_fallbacks:
  "(\<not> question_text_present j \<longrightarrow>
      generate_viva_question (Payload j) = generate_viva_question TransportFailure)
   \<and> generate_viva_question (NotJSON c) = generate_viva_question TransportFailure
   \<and> generate_viva_question TransportFailure = fallback_question
   \<and> evaluate_viva_response (Payload j) = j
   \<and> evaluate_viva_response (NotJSON c) = evaluate_viva_response TransportFailure
   \<and> evaluate_viva_response TransportFailure = fallback_evaluation"
proof -
  have "generate_viva_question (Payload j) = fallback_question" if "\<not> question_text_present j"
    using that by (intro generate_fallback_when_failed) (simp add: generation_failed_def)
  moreover have "generate_viva_question TransportFailure = fallback_question"
    and "generate_viva_question (NotJSON c) = fallback_question"
    by (simp_all add: generate_viva_question_def)
  ultimately show ?thesis
    by (simp add: evaluate_viva_response_def)
qed

theorem adapter_fallbacks_witness:
  "\<not> question_text_present (JObj [(''expected_keywords'', JArr [])])
   \<and> generate_viva_question (Payload (JObj [(''expected_keywords'', JArr [])])) = fallback_question
   \<and> generate_viva_question (NotJSON ''oops'') = fallback_question
   \<and> evaluate_viva_response (Payload (JObj [(''overall_score'', JNum 5)]))
       = JObj [(''overall_score'', JNum 5)]
   \<and> evaluate_viva_response (NotJSON ''oops'') = fallback_evaluation"
proof -
  have h: "\<not> question_text_present (JObj [(''expected_keywords'', JArr [])])"
    by (simp add: question_text_present_def)
  show ?thesis
    using h adapter_fallbacks [of "JObj [(''expected_keywords'', JArr [])]" "''oops''"]
      adapter_fallbacks [of "JObj [(''overall_score'', JNum 5)]" "''oops''"]
    by simp
qed

text \<open>
  C7 as stated fails for evaluations: a payload that carries only an overall score of 5
  (three scores absent, one outside the unit interval) is returned as it is, not
  replaced by the fallback evaluation.
\<close>

theorem malformed_evaluation_counterexample:
  "\<not> scores_conform (JObj [(''overall_score'', JNum 5)])
   \<and> evaluate_viva_response (Payload (JObj [(''overall_score'', JNum 5)]))
       = JObj [(''overall_score'', JNum 5)]
   \<and> evaluate_viva_response (Payload (JObj [(''overall_score'', JNum 5)]))
       \<noteq> evaluate_viva_response TransportFailure"
  by (simp add: scores_conform_def evaluate_viva_response_def fallback_evaluation_def)

section \<open>Properties of the aggregate scores\<close>

lemma sum_truthy_or0:
  "sum_list (map (\<lambda>r. or0 (f r)) (filter (\<lambda>r. truthy (f r)) rs)) = sum_list (map (\<lambda>r. or0 (f r)) rs)"
  by (induction rs) (auto simp: or0_def truthy_def split: option.splits)

lemma total_score_calculate:
  "total_score (calculate_overall_scores s) = Some (sum_list (map (\<lambda>r. or0 (score r)) (responses s)))"
  by (simp add: calculate_overall_scores_def Let_def sum_truthy_or0)

lemma max_possible_score_calculate:
  "max_possible_score (calculate_overall_scores s)
     = Some (sum_list (map (\<lambda>r. or0 (max_score r)) (responses s)))"
  by (simp add: calculate_overall_scores_def Let_def sum_truthy_or0)

lemma or0_the: "x \<noteq> None \<Longrightarrow> or0 x = the x"
  by (auto simp: or0_def)

lemma map_or0_the:
  "list_all (\<lambda>r. f r \<noteq> None) rs \<Longrightarrow> map (\<lambda>r. or0 (f r)) rs = map (\<lambda>r. the (f r)) rs"
  by (induction rs) (auto simp: or0_the)

text \<open>
  C8. Over a list of finalized turns (each has a score and a maximal score) the total
  is the sum of the turns' scores and the maximum the sum of their maximal scores. Both
  are functions of the turn list alone. The example of the claim, turns scored 7 of 10
  and 8 of 10, is the instance \<open>aggregator_totals_witness\<close>: 15 of 20.
\<close>

theorem aggregator_totals:
  assumes "list_all (\<lambda>r. score r \<noteq> None \<and> max_score r \<noteq> None) (responses s)"
  shows "total_score (calculate_overall_scores s)
           = Some (sum_list (map (\<lambda>r. the (score r)) (responses s)))
       \<and> max_possible_score (calculate_overall_scores s)
           = Some (sum_list (map (\<lambda>r. the (max_score r)) (responses s)))"
proof -
  from assms have a: "list_all (\<lambda>r. score r \<noteq> None) (responses s)"
    and b: "list_all (\<lambda>r. max_score r \<noteq> None) (responses s)"
    by (simp_all add: list_all_iff)
  show ?thesis
    by (simp add: total_score_calculate max_possible_score_calculate
          map_or0_the [OF a] map_or0_the [OF b])
qed

theorem aggregator_totals_witness:
  "list_all (\<lambda>r. score r \<noteq> None \<and> max_score r \<noteq> None) [scored_turn 7 10, scored_turn 8 10]
   \<and> total_score (calculate_overall_scores
        ((new_viva_session 1 1 1 MOCK)\<lparr>responses := [scored_turn 7 10, scored_turn 8 10]\<rparr>)) = Some 15
   \<and> max_possible_score (calculate_overall_scores
        ((new_viva_session 1 1 1 MOCK)\<lparr>responses := [scored_turn 7 10, scored_turn 8 10]\<rparr>)) = Some 20"
proof -
  have h: "list_all (\<lambda>r. score r \<noteq> None \<and> max_score r \<noteq> None)
      (responses ((new_viva_session 1 1 1 MOCK)\<lparr>responses := [scored_turn 7 10, scored_turn 8 10]\<rparr>))"
    by (simp add: scored_turn_def)
  show ?thesis
    using h aggregator_totals [OF h] by (simp add: scored_turn_def)
qed




section \<open>Facts about the endpoints\<close>

lemma current_response_SomeD:
  "current_response rs = Some i \<Longrightarrow> i < length rs \<and> response_text (rs ! i) = None"
  by (induction rs arbitrary: i) (auto split: option.splits if_splits)

lemma current_response_None_iff:
  "current_response rs = None \<longleftrightarrow> list_all (\<lambda>r. response_text r \<noteq> None) rs"
  by (induction rs) (auto split: option.splits if_splits)

lemma calculate_overall_scores_keeps:
  "status (calculate_overall_scores s) = status s"
  "questions_asked (calculate_overall_scores s) = questions_asked s"
  "questions_answered (calculate_overall_scores s) = questions_answered s"
  "responses (calculate_overall_scores s) = responses s"
  "student_id (calculate_overall_scores s) = student_id s"
  by (simp_all add: calculate_overall_scores_def Let_def)

lemma end_session_facts:
  "status (fst (end_session s now)) = COMPLETED"
  "questions_asked (fst (end_session s now)) = questions_asked s"
  "questions_answered (fst (end_session s now)) = questions_answered s"
  "responses (fst (end_session s now)) = responses s"
  "\<exists>t m. snd (end_session s now) = SessionComplete t m"
  by (simp_all add: end_session_def Let_def calculate_overall_scores_keeps)

lemma next_or_finish_Inr:
  "gen \<noteq> CommitFailed \<Longrightarrow> \<exists>s' out. next_or_finish s gen now = Inr (s', out)"
  by (cases gen; cases "end_session s now") (auto simp: next_or_finish_def Let_def)

lemma next_or_finish_continue:
  assumes "next_or_finish s gen now = Inr (s', out)" and "continues s gen"
  shows "status s' = status s"
    and "questions_asked s' = questions_asked s + 1"
    and "questions_answered s' = questions_answered s"
    and "\<exists>q. responses s' = responses s @ [new_response q (questions_asked s + 1)]"
    and "\<exists>q. out = NextQuestion q"
  using assms
  by (auto simp: continues_def next_or_finish_def Let_def split: generation_outcome.splits)

lemma next_or_finish_finish:
  assumes "next_or_finish s gen now = Inr (s', out)" and "\<not> continues s gen"
  shows "end_session s now = (s', out)"
  using assms
  by (auto simp: continues_def next_or_finish_def split: generation_outcome.splits if_splits)

lemma next_or_finish_InrD:
  assumes "next_or_finish s gen now = Inr (s', out)"
  shows "gen \<noteq> CommitFailed"
    and "status s' = (if continues s gen then status s else COMPLETED)"
    and "questions_asked s' = (if continues s gen then questions_asked s + 1 else questions_asked s)"
    and "questions_answered s' = questions_answered s"
    and "\<exists>q. responses s'
            = (if continues s gen then responses s @ [new_response q (questions_asked s + 1)]
               else responses s)"
    and "if continues s gen then \<exists>q. out = NextQuestion q else \<exists>t m. out = SessionComplete t m"
proof -
  show "gen \<noteq> CommitFailed"
    using assms by (auto simp: next_or_finish_def split: if_splits)
  have fin: "s' = fst (end_session s now) \<and> out = snd (end_session s now)"
    if "\<not> continues s gen"
    using next_or_finish_finish [OF assms that] by simp
  show "status s' = (if continues s gen then status s else COMPLETED)"
    using next_or_finish_continue(1) [OF assms] fin end_session_facts(1) [of s now] by auto
  show "questions_asked s' = (if continues s gen then questions_asked s + 1 else questions_asked s)"
    using next_or_finish_continue(2) [OF assms] fin end_session_facts(2) [of s now] by auto
  show "questions_answered s' = questions_answered s"
    using next_or_finish_continue(3) [OF assms] fin end_session_facts(3) [of s now]
    by (cases "continues s gen") auto
  show "\<exists>q. responses s'
            = (if continues s gen then responses s @ [new_response q (questions_asked s + 1)]
               else responses s)"
    using next_or_finish_continue(4) [OF assms] fin end_session_facts(4) [of s now]
    by (cases "continues s gen") auto
  show "if continues s gen then \<exists>q. out = NextQuestion q else \<exists>t m. out = SessionComplete t m"
    using next_or_finish_continue(5) [OF assms] fin end_session_facts(5) [of s now]
    by (cases "continues s gen") auto
qed

lemma next_or_finish_responses_nth:
  assumes "next_or_finish s gen now = Inr (s', out)" and "i < length (responses s)"
  shows "i < length (responses s') \<and> responses s' ! i = responses s ! i"
  using next_or_finish_InrD(5) [OF assms(1)] assms(2)
  by (auto simp: nth_append split: if_splits)

lemma record_answer_InrD:
  assumes "record_answer found u rd ev = Inr s1"
  shows "\<exists>s i r'. found = Some s \<and> role u = STUDENT \<and> student_id s = user_id u
           \<and> status s = IN_PROGRESS \<and> current_response (responses s) = Some i
           \<and> apply_evaluation (evaluate_viva_response ev)
                ((responses s ! i)
                   \<lparr>response_text := req_response_text rd,
                    response_audio_path := req_response_audio_path rd,
                    response_timestamp := req_response_timestamp rd,
                    response_duration := req_response_duration rd\<rparr>) = Some r'
           \<and> s1 = s\<lparr>responses := (responses s)[i := r'],
                      questions_answered := questions_answered s + 1\<rparr>"
  using assms
  by (auto simp: record_answer_def Let_def split: if_splits option.splits)

lemma submit_InrD:
  assumes "submit_viva_response found u rd ev gen now = Inr res"
  shows "\<exists>s1. record_answer found u rd ev = Inr s1 \<and> next_or_finish s1 gen now = Inr res"
  using assms by (auto simp: submit_viva_response_def split: sum.splits)

lemma start_InrD:
  assumes "start_viva_session found u gen now = Inr res"
  shows "\<exists>s reply. found = Some s \<and> role u = STUDENT \<and> student_id s = user_id u
           \<and> status s = SCHEDULED \<and> gen = Replied reply
           \<and> res = (s\<lparr>status := IN_PROGRESS, started_at := Some now,
                       responses := responses s
                          @ [new_response (question (generate_viva_question reply)) 1],
                       questions_asked := 1\<rparr>,
                    Started (session_id s) (question (generate_viva_question reply)))"
  using assms
  by (auto simp: start_viva_session_def Let_def split: if_splits option.splits generation_outcome.splits)


lemma apply_evaluation_keeps:
  assumes "apply_evaluation ev r = Some r'"
  shows "response_text r' = response_text r" "order_index r' = order_index r"
    "question_text r' = question_text r" "max_score r' = Some 10"
  using assms
  by (auto simp: apply_evaluation_def split: json.splits option.splits)


lemma set_field_simps:
  "set_field None old = old" "set_field (Some v) old = v"
  by (simp_all add: set_field_def)

lemma update_InrD:
  "update_viva_session (Some s) u upd now = Inr s' \<Longrightarrow>
     status s' = (case upd_status upd of None \<Rightarrow> status s | Some st \<Rightarrow> st)
     \<and> responses s' = responses s \<and> questions_asked s' = questions_asked s
     \<and> questions_answered s' = questions_answered s"
  by (cases "upd_status upd")
     (auto simp: update_viva_session_def Let_def set_field_simps split: if_splits)

lemma apply_start:
  "apply_operation s (Start u gen now) = s' \<Longrightarrow>
     s' = s \<or> (status s = SCHEDULED \<and>
       (\<exists>q. s' = s\<lparr>status := IN_PROGRESS, started_at := Some now,
                    responses := responses s @ [new_response q 1], questions_asked := 1\<rparr>))"
  by (cases "start_viva_session (Some s) u gen now")
     (auto dest!: start_InrD)

text \<open>
  The stored session after a response: untouched, or the session of the first commit
  (when the closing commit fails), or the session of the closing commit.
\<close>

lemma apply_submit:
  assumes "apply_operation s (SubmitResponse u rd ev gen now) = s'"
  shows "s' = s \<or> (status s = IN_PROGRESS \<and>
       (\<exists>i r' s1. current_response (responses s) = Some i
          \<and> response_text r' = req_response_text rd
          \<and> s1 = s\<lparr>responses := (responses s)[i := r'],
                     questions_answered := questions_answered s + 1\<rparr>
          \<and> ((s' = s1 \<and> gen = CommitFailed)
               \<or> (\<exists>out. next_or_finish s1 gen now = Inr (s', out)))))"
proof (cases "record_answer (Some s) u rd ev")
  case (Inl e)
  with assms show ?thesis by simp
next
  case (Inr s1)
  from record_answer_InrD [OF Inr] obtain i r' where
    st: "status s = IN_PROGRESS" and cur: "current_response (responses s) = Some i"
    and ev: "apply_evaluation (evaluate_viva_response ev)
                ((responses s ! i)
                   \<lparr>response_text := req_response_text rd,
                    response_audio_path := req_response_audio_path rd,
                    response_timestamp := req_response_timestamp rd,
                    response_duration := req_response_duration rd\<rparr>) = Some r'"
    and s1: "s1 = s\<lparr>responses := (responses s)[i := r'],
                    questions_answered := questions_answered s + 1\<rparr>"
    by auto
  from apply_evaluation_keeps(1) [OF ev] have rtext: "response_text r' = req_response_text rd"
    by simp
  have "(s' = s1 \<and> gen = CommitFailed) \<or> (\<exists>out. next_or_finish s1 gen now = Inr (s', out))"
  proof (cases "next_or_finish s1 gen now")
    case (Inl e)
    with next_or_finish_Inr [of gen s1 now] have "gen = CommitFailed"
      by auto
    moreover from assms Inr Inl have "s' = s1"
      by simp
    ultimately show ?thesis by simp
  next
    case (Inr res)
    with assms \<open>record_answer (Some s) u rd ev = Inr s1\<close> show ?thesis
      by (cases res) simp
  qed
  with st cur rtext s1 show ?thesis by blast
qed

lemma apply_update:
  "apply_operation s (Update u upd now) = s' \<Longrightarrow> responses s' = responses s"
  by (cases "update_viva_session (Some s) u upd now") (auto dest: update_InrD)

section \<open>Example runs\<close>

lemmas example_defs =
  example_session_def example_student_def new_viva_session_def healthy_start_def
  healthy_submit_def text_answer_def healthy_question_def healthy_evaluation_def

lemmas engine_defs =
  run_def start_viva_session_def record_answer_def next_or_finish_def end_session_def
  generate_viva_question_def evaluate_viva_response_def apply_evaluation_def py_get_def
  as_str_def as_str_list_def as_dict_def new_response_def Let_def

lemma started_session_facts:
  "role example_student = STUDENT" "student_id started_session = user_id example_student"
  "status started_session = IN_PROGRESS"
  "current_response (responses started_session) = Some 0"
  "questions_asked started_session = 1" "questions_answered started_session = 0"
  by (simp_all add: started_session_def example_session_def example_student_def
        new_viva_session_def new_response_def)

lemma healthy_interview_run:
  "status (run example_session (take 5 healthy_interview)) = IN_PROGRESS"
  "questions_asked (run example_session (take 5 healthy_interview)) = 5"
  "status (run example_session healthy_interview) = COMPLETED"
  "questions_asked (run example_session healthy_interview) = 5"
  "questions_answered (run example_session healthy_interview) = 5"
  "length (responses (run example_session healthy_interview)) = 5"
  "student_id (run example_session healthy_interview) = 7"
  by (simp_all add: healthy_interview_def example_defs engine_defs calculate_overall_scores_keeps)

lemma two_turn_run:
  "length (responses (run example_session [healthy_start, healthy_submit 10])) = 2"
  "response_text (responses (run example_session [healthy_start, healthy_submit 10]) ! 0) = Some ''a''"
  by (simp_all add: example_defs engine_defs)

section \<open>Failure of the adapter\<close>






section \<open>Scores of a completed session\<close>

text \<open>
  C10. Whenever \<^verbatim>\<open>submit_viva_response\<close> completes a session, the turn list is
  not empty and the communication score equals the overall confidence score: both are
  the mean of the turns' confidence scores, an unset score counting as 0.
\<close>

theorem communication_equals_confidence:
  assumes "submit_viva_response found u rd ev gen now = Inr (s', out)"
    and "status s' = COMPLETED"
  shows "responses s' \<noteq> []
     \<and> communication_score s' = overall_confidence_score s'
     \<and> overall_confidence_score s'
         = Some (sum_list (map (\<lambda>r. or0 (confidence_score r)) (responses s'))
                 / of_nat (length (responses s')))"
proof -
  from submit_InrD [OF assms(1)] obtain s1 where
    rec: "record_answer found u rd ev = Inr s1"
    and nf: "next_or_finish s1 gen now = Inr (s', out)"
    by blast
  from record_answer_InrD [OF rec] obtain s i r' where
    st: "status s = IN_PROGRESS" and cur: "current_response (responses s) = Some i"
    and s1: "s1 = s\<lparr>responses := (responses s)[i := r'],
                    questions_answered := questions_answered s + 1\<rparr>"
    by blast
  have ne: "responses s1 \<noteq> []"
    using current_response_SomeD [OF cur] by (auto simp: s1)
  have st1: "status s1 = IN_PROGRESS"
    using st by (simp add: s1)
  have "\<not> continues s1 gen"
    using next_or_finish_InrD(2) [OF nf] assms(2) st1 by auto
  from next_or_finish_finish [OF nf this] have "s' = fst (end_session s1 now)"
    by simp
  then show ?thesis
    using ne by (simp add: end_session_def calculate_overall_scores_def Let_def)
qed

theorem communication_equals_confidence_witness:
  "\<exists>s' out. submit_viva_response (Some started_session) example_student text_answer
        healthy_evaluation Raised 10 = Inr (s', out)
     \<and> status s' = COMPLETED
     \<and> communication_score s' = Some (4 / 5) \<and> overall_confidence_score s' = Some (4 / 5)"
proof -
  have "\<exists>s' out. submit_viva_response (Some started_session) example_student text_answer
        healthy_evaluation Raised 10 = Inr (s', out) \<and> status s' = COMPLETED
        \<and> map confidence_score (responses s') = [Some (4 / 5)]"
    by (simp add: submit_viva_response_def record_answer_def started_session_facts Let_def
          evaluate_viva_response_def healthy_evaluation_def apply_evaluation_def py_get_def
          next_or_finish_def end_session_def calculate_overall_scores_keeps)
       (simp add: started_session_def)
  then obtain s' out where
    eq: "submit_viva_response (Some started_session) example_student text_answer
        healthy_evaluation Raised 10 = Inr (s', out)"
    and st: "status s' = COMPLETED"
    and cs: "map confidence_score (responses s') = [Some (4 / 5)]"
    by (elim exE conjE)
  from cs have "map (\<lambda>r. or0 (confidence_score r)) (responses s') = [4 / 5]"
    and "length (responses s') = 1"
    by (auto simp: or0_def map_eq_Cons_conv)
  with communication_equals_confidence [OF eq st] eq st show ?thesis
    by auto
qed

section \<open>Lifecycle\<close>

lemma lifecycle_rank_step:
  assumes "\<not> is_update op"
  shows "lifecycle_rank (status s) \<le> lifecycle_rank (status (apply_operation s op))"
proof -
  define s' where "s' = apply_operation s op"
  have "lifecycle_rank (status s) \<le> lifecycle_rank (status s')"
  proof (cases op)
    case (Start u gen now)
    then have "apply_operation s (Start u gen now) = s'"
      by (simp only: s'_def)
    from apply_start [OF this] show ?thesis
      by auto
  next
    case (SubmitResponse u rd ev gen now)
    then have "apply_operation s (SubmitResponse u rd ev gen now) = s'"
      by (simp only: s'_def)
    from apply_submit [OF this] show ?thesis
      by (auto dest!: next_or_finish_InrD(2) split: if_splits)
  next
    case (Update u upd now)
    with assms show ?thesis by simp
  qed
  then show ?thesis by (simp only: s'_def)
qed

text \<open>
  C4, as the code has it. Start and SubmitResponse never move a session backwards along
  scheduled, in progress, completed. The update operation has no such guard: a
  successful update leaves the session with exactly the status of the request (the old
  status when the request carries none).
\<close>

theorem lifecycle_monotone_except_update:
  "(\<not> is_update op \<longrightarrow> lifecycle_rank (status s) \<le> lifecycle_rank (status (apply_operation s op)))
   \<and> (update_viva_session (Some s) u upd now = Inr s' \<longrightarrow>
        status s' = (case upd_status upd of None \<Rightarrow> status s | Some st \<Rightarrow> st))"
  using lifecycle_rank_step [of op s] update_InrD [of s u upd now s'] by blast

theorem lifecycle_monotone_except_update_witness:
  "\<not> is_update healthy_start
   \<and> lifecycle_rank (status example_session)
       \<le> lifecycle_rank (status (apply_operation example_session healthy_start))
   \<and> (\<exists>s'. update_viva_session (Some example_session) example_student reopen 0 = Inr s'
          \<and> status s' = IN_PROGRESS)"
proof -
  have h1: "\<not> is_update healthy_start"
    by (simp add: healthy_start_def)
  have "\<exists>s'. update_viva_session (Some example_session) example_student reopen 0 = Inr s'"
    by (simp add: update_viva_session_def example_session_def example_student_def
          new_viva_session_def Let_def reopen_def set_field_simps)
  then obtain s' where h2: "update_viva_session (Some example_session) example_student reopen 0 = Inr s'"
    by (elim exE)
  from lifecycle_monotone_except_update [of healthy_start example_session example_student reopen 0 s']
    h1 h2 show ?thesis
    by (simp add: reopen_def)
qed

text \<open>
  C4 as stated fails: after a complete interview of five questions the session is
  completed, and an update by the respondent with status \<^verbatim>\<open>in_progress\<close> puts it
  back in progress.
\<close>

theorem update_reopens_completed_counterexample:
  "status (run example_session healthy_interview) = COMPLETED
   \<and> status (apply_operation (run example_session healthy_interview)
                (Update example_student reopen 60)) = IN_PROGRESS"
  by (simp add: healthy_interview_run update_viva_session_def reopen_def set_field_simps
        example_student_def Let_def)

section \<open>Counters\<close>

lemma counters_inv_new: "counters_inv (new_viva_session sid sub st ty)"
  by (simp add: counters_inv_def new_viva_session_def)

lemma counters_inv_step:
  assumes "counters_inv s" and "commits op"
  shows "counters_inv (apply_operation s op)"
proof -
  define s' where "s' = apply_operation s op"
  have "counters_inv s'"
  proof (cases op)
    case (Start u gen now)
    then have "apply_operation s (Start u gen now) = s'"
      by (simp only: s'_def)
    from apply_start [OF this] assms(1) show ?thesis
      by (auto simp: counters_inv_def)
  next
    case (SubmitResponse u rd ev gen now)
    then have a: "apply_operation s (SubmitResponse u rd ev gen now) = s'"
      by (simp only: s'_def)
    from assms(2) SubmitResponse have ok: "gen \<noteq> CommitFailed"
      by simp
    from apply_submit [OF a] show ?thesis
    proof
      assume "s' = s"
      with assms(1) show ?thesis by simp
    next
      assume "status s = IN_PROGRESS \<and>
       (\<exists>i r' s1. current_response (responses s) = Some i
          \<and> response_text r' = req_response_text rd
          \<and> s1 = s\<lparr>responses := (responses s)[i := r'],
                     questions_answered := questions_answered s + 1\<rparr>
          \<and> ((s' = s1 \<and> gen = CommitFailed)
               \<or> (\<exists>out. next_or_finish s1 gen now = Inr (s', out))))"
      with ok obtain i r' s1 out where st: "status s = IN_PROGRESS"
        and s1: "s1 = s\<lparr>responses := (responses s)[i := r'],
                     questions_answered := questions_answered s + 1\<rparr>"
        and nf: "next_or_finish s1 gen now = Inr (s', out)"
        by blast
      from assms(1) st have "questions_answered s1 \<le> questions_asked s1"
        and "status s1 = IN_PROGRESS"
        by (simp_all add: counters_inv_def s1)
      with next_or_finish_InrD(2,3,4) [OF nf] show ?thesis
        by (auto simp: counters_inv_def)
    qed
  next
    case (Update u upd now)
    with assms(2) show ?thesis by simp
  qed
  then show ?thesis by (simp only: s'_def)
qed

lemma counters_inv_run:
  "counters_inv s \<Longrightarrow> list_all commits ops \<Longrightarrow> counters_inv (run s ops)"
  unfolding run_def
  by (induction ops arbitrary: s) (auto simp: counters_inv_step)

lemma counters_inv_le: "counters_inv s \<Longrightarrow> questions_answered s \<le> questions_asked s"
  by (cases "status s") (auto simp: counters_inv_def)

lemma filter_update_count:
  "j < length rs \<Longrightarrow> P (rs ! j) \<Longrightarrow> \<not> P x \<Longrightarrow>
     Suc (length (filter P (rs[j := x]))) = length (filter P rs)"
proof (induction rs arbitrary: j)
  case Nil
  then show ?case by simp
next
  case (Cons r rs)
  then show ?case by (cases j) auto
qed

lemma pending_new_response: "pending (new_response q n)"
  by (simp add: pending_def new_response_def)

text \<open>
  A response with text takes its turn out of the pending ones, in the session of the
  first commit.
\<close>

lemma answered_turn_not_pending:
  assumes "current_response (responses s) = Some i" and "response_text r' \<noteq> None"
  shows "Suc (length (filter pending ((responses s)[i := r'])))
           = length (filter pending (responses s))"
proof -
  from current_response_SomeD [OF assms(1)] have "i < length (responses s)"
    and "pending (responses s ! i)"
    by (simp_all add: pending_def)
  moreover from assms(2) have "\<not> pending r'"
    by (simp add: pending_def)
  ultimately show ?thesis
    by (rule filter_update_count)
qed

lemma answered_inv_new: "answered_inv (new_viva_session sid sub st ty)"
  by (simp add: answered_inv_def new_viva_session_def)

lemma answered_inv_step:
  assumes "answered_inv s" and "carries_text op"
  shows "answered_inv (apply_operation s op)"
proof -
  define s' where "s' = apply_operation s op"
  have "answered_inv s'"
  proof (cases op)
    case (Start u gen now)
    then have "apply_operation s (Start u gen now) = s'"
      by (simp only: s'_def)
    from apply_start [OF this] assms(1) show ?thesis
      by (auto simp: answered_inv_def pending_new_response)
  next
    case (SubmitResponse u rd ev gen now)
    then have a: "apply_operation s (SubmitResponse u rd ev gen now) = s'"
      by (simp only: s'_def)
    from assms(2) SubmitResponse have tx: "req_response_text rd \<noteq> None"
      by simp
    from apply_submit [OF a] show ?thesis
    proof
      assume "s' = s"
      with assms(1) show ?thesis by simp
    next
      assume "status s = IN_PROGRESS \<and>
       (\<exists>i r' s1. current_response (responses s) = Some i
          \<and> response_text r' = req_response_text rd
          \<and> s1 = s\<lparr>responses := (responses s)[i := r'],
                     questions_answered := questions_answered s + 1\<rparr>
          \<and> ((s' = s1 \<and> gen = CommitFailed)
               \<or> (\<exists>out. next_or_finish s1 gen now = Inr (s', out))))"
      then obtain i r' s1 where st: "status s = IN_PROGRESS"
        and cur: "current_response (responses s) = Some i"
        and rtext: "response_text r' = req_response_text rd"
        and s1: "s1 = s\<lparr>responses := (responses s)[i := r'],
                     questions_answered := questions_answered s + 1\<rparr>"
        and alt: "(s' = s1 \<and> gen = CommitFailed)
               \<or> (\<exists>out. next_or_finish s1 gen now = Inr (s', out))"
        by blast
      from answered_turn_not_pending [OF cur, of r'] rtext tx
      have "Suc (length (filter pending (responses s1))) = length (filter pending (responses s))"
        by (simp add: s1)
      with assms(1) st have inv1: "answered_inv s1"
        by (auto simp: answered_inv_def s1)
      have st1: "status s1 = IN_PROGRESS"
        using st by (simp add: s1)
      from alt show ?thesis
      proof
        assume "s' = s1 \<and> gen = CommitFailed"
        with inv1 show ?thesis by simp
      next
        assume "\<exists>out. next_or_finish s1 gen now = Inr (s', out)"
        then obtain out where nf: "next_or_finish s1 gen now = Inr (s', out)"
          by blast
        from next_or_finish_InrD(2,3,4,5) [OF nf] inv1 st1 show ?thesis
          by (cases "continues s1 gen") (auto simp: answered_inv_def pending_new_response)
      qed
    qed
  next
    case (Update u upd now)
    with assms(2) show ?thesis by simp
  qed
  then show ?thesis by (simp only: s'_def)
qed

lemma answered_inv_run:
  "answered_inv s \<Longrightarrow> list_all carries_text ops \<Longrightarrow> answered_inv (run s ops)"
  unfolding run_def
  by (induction ops arbitrary: s) (auto simp: answered_inv_step)

lemma answered_inv_le: "answered_inv s \<Longrightarrow> questions_answered s \<le> questions_asked s"
  by (simp add: answered_inv_def)

text \<open>
  C2, as the code has it. Take a session as \<^verbatim>\<open>create_viva_session\<close> creates it and
  a sequence of Start and SubmitResponse requests, whatever their other arguments and
  whether they succeed or fail. If the database accepts the closing commit of every
  request, or if every response carries text, then after each request (after the first
  \<open>n\<close> of them, for every \<open>n\<close>) the counter of answered questions is at most the
  counter of asked questions.
\<close>

theorem answered_le_asked:
  "(list_all commits ops \<longrightarrow>
      questions_answered (run (new_viva_session sid sub st ty) (take n ops))
        \<le> questions_asked (run (new_viva_session sid sub st ty) (take n ops)))
   \<and> (list_all carries_text ops \<longrightarrow>
      questions_answered (run (new_viva_session sid sub st ty) (take n ops))
        \<le> questions_asked (run (new_viva_session sid sub st ty) (take n ops)))"
proof (intro conjI impI)
  assume "list_all commits ops"
  then have "list_all commits (take n ops)"
    by (auto simp: list_all_iff dest: in_set_takeD)
  then show "questions_answered (run (new_viva_session sid sub st ty) (take n ops))
        \<le> questions_asked (run (new_viva_session sid sub st ty) (take n ops))"
    by (intro counters_inv_le counters_inv_run counters_inv_new)
next
  assume "list_all carries_text ops"
  then have "list_all carries_text (take n ops)"
    by (auto simp: list_all_iff dest: in_set_takeD)
  then show "questions_answered (run (new_viva_session sid sub st ty) (take n ops))
        \<le> questions_asked (run (new_viva_session sid sub st ty) (take n ops))"
    by (intro answered_inv_le answered_inv_run answered_inv_new)
qed

theorem answered_le_asked_witness:
  "list_all commits healthy_interview \<and> list_all carries_text healthy_interview
   \<and> questions_answered (run example_session (take 6 healthy_interview))
       \<le> questions_asked (run example_session (take 6 healthy_interview))
   \<and> questions_answered (run example_session healthy_interview) = 5
   \<and> questions_asked (run example_session healthy_interview) = 5"
proof -
  have h: "list_all commits healthy_interview" "list_all carries_text healthy_interview"
    by (simp_all add: healthy_interview_def healthy_start_def healthy_submit_def text_answer_def)
  from answered_le_asked [of healthy_interview 1 1 7 MOCK 6] h show ?thesis
    by (simp add: example_session_def [symmetric] healthy_interview_run)
qed

text \<open>
  C2 as stated fails. The respondent starts the session and sends a response without
  text twice; each time the database accepts the commit of line 333 and refuses the
  closing one. Each request answers HTTP 500, the one turn stays pending, and the
  session is left with two answers counted and one question asked.
\<close>

theorem answered_exceeds_asked_counterexample:
  "questions_answered
     (run example_session [healthy_start, unstored_empty_submit 10, unstored_empty_submit 20]) = 2
   \<and> questions_asked
     (run example_session [healthy_start, unstored_empty_submit 10, unstored_empty_submit 20]) = 1
   \<and> status
     (run example_session [healthy_start, unstored_empty_submit 10, unstored_empty_submit 20])
       = IN_PROGRESS"
  by (simp add: example_defs unstored_empty_submit_def empty_answer_def engine_defs)

section \<open>Pending and answered turns\<close>

lemma apply_operation_keeps_answered:
  assumes "i < length (responses s)" and "response_text (responses s ! i) \<noteq> None"
  shows "i < length (responses (apply_operation s op))
       \<and> responses (apply_operation s op) ! i = responses s ! i"
proof -
  define s' where "s' = apply_operation s op"
  have "i < length (responses s') \<and> responses s' ! i = responses s ! i"
  proof (cases op)
    case (Start u gen now)
    then have "apply_operation s (Start u gen now) = s'"
      by (simp only: s'_def)
    from apply_start [OF this] assms(1) show ?thesis
      by (auto simp: nth_append)
  next
    case (SubmitResponse u rd ev gen now)
    then have "apply_operation s (SubmitResponse u rd ev gen now) = s'"
      by (simp only: s'_def)
    from apply_submit [OF this] show ?thesis
    proof
      assume "s' = s"
      with assms(1) show ?thesis by simp
    next
      assume "status s = IN_PROGRESS \<and>
       (\<exists>j r' s1. current_response (responses s) = Some j
          \<and> response_text r' = req_response_text rd
          \<and> s1 = s\<lparr>responses := (responses s)[j := r'],
                     questions_answered := questions_answered s + 1\<rparr>
          \<and> ((s' = s1 \<and> gen = CommitFailed)
               \<or> (\<exists>out. next_or_finish s1 gen now = Inr (s', out))))"
      then obtain j r' s1 where cur: "current_response (responses s) = Some j"
        and s1: "s1 = s\<lparr>responses := (responses s)[j := r'],
                     questions_answered := questions_answered s + 1\<rparr>"
        and alt: "(s' = s1 \<and> gen = CommitFailed)
               \<or> (\<exists>out. next_or_finish s1 gen now = Inr (s', out))"
        by blast
      from current_response_SomeD [OF cur] assms(2) have "j \<noteq> i"
        by auto
      with assms(1) have i1: "i < length (responses s1)"
        and nth1: "responses s1 ! i = responses s ! i"
        by (simp_all add: s1)
      from alt show ?thesis
      proof
        assume "s' = s1 \<and> gen = CommitFailed"
        with i1 nth1 show ?thesis by simp
      next
        assume "\<exists>out. next_or_finish s1 gen now = Inr (s', out)"
        then obtain out where nf: "next_or_finish s1 gen now = Inr (s', out)"
          by blast
        from next_or_finish_responses_nth [OF nf i1] nth1 show ?thesis
          by simp
      qed
    qed
  next
    case (Update u upd now)
    then have "apply_operation s (Update u upd now) = s'"
      by (simp only: s'_def)
    from apply_update [OF this] assms(1) show ?thesis by simp
  qed
  then show ?thesis by (simp only: s'_def)
qed

lemma one_pending_inv_new: "one_pending_inv (new_viva_session sid sub st ty)"
  by (simp add: one_pending_inv_def new_viva_session_def)

lemma one_pending_inv_step:
  assumes "one_pending_inv s" and "carries_text op"
  shows "one_pending_inv (apply_operation s op)"
proof -
  define s' where "s' = apply_operation s op"
  have "one_pending_inv s'"
  proof (cases op)
    case (Start u gen now)
    then have "apply_operation s (Start u gen now) = s'"
      by (simp only: s'_def)
    from apply_start [OF this] assms(1) show ?thesis
      by (auto simp: one_pending_inv_def pending_new_response)
  next
    case (SubmitResponse u rd ev gen now)
    then have a: "apply_operation s (SubmitResponse u rd ev gen now) = s'"
      by (simp only: s'_def)
    from assms(2) SubmitResponse have tx: "req_response_text rd \<noteq> None"
      by simp
    from apply_submit [OF a] show ?thesis
    proof
      assume "s' = s"
      with assms(1) show ?thesis by simp
    next
      assume "status s = IN_PROGRESS \<and>
       (\<exists>j r' s1. current_response (responses s) = Some j
          \<and> response_text r' = req_response_text rd
          \<and> s1 = s\<lparr>responses := (responses s)[j := r'],
                     questions_answered := questions_answered s + 1\<rparr>
          \<and> ((s' = s1 \<and> gen = CommitFailed)
               \<or> (\<exists>out. next_or_finish s1 gen now = Inr (s', out))))"
      then obtain j r' s1 where st: "status s = IN_PROGRESS"
        and cur: "current_response (responses s) = Some j"
        and rtext: "response_text r' = req_response_text rd"
        and s1: "s1 = s\<lparr>responses := (responses s)[j := r'],
                     questions_answered := questions_answered s + 1\<rparr>"
        and alt: "(s' = s1 \<and> gen = CommitFailed)
               \<or> (\<exists>out. next_or_finish s1 gen now = Inr (s', out))"
        by blast
      from answered_turn_not_pending [OF cur, of r'] rtext tx
      have "Suc (length (filter pending ((responses s)[j := r'])))
              = length (filter pending (responses s))"
        by simp
      moreover from assms(1) have "length (filter pending (responses s)) \<le> 1"
        by (simp add: one_pending_inv_def)
      ultimately have "length (filter pending ((responses s)[j := r'])) = 0"
        by linarith
      then have c1: "filter pending (responses s1) = []"
        by (simp add: s1)
      have st1: "status s1 = IN_PROGRESS"
        using st by (simp add: s1)
      from alt show ?thesis
      proof
        assume "s' = s1 \<and> gen = CommitFailed"
        with c1 st1 show ?thesis by (simp add: one_pending_inv_def)
      next
        assume "\<exists>out. next_or_finish s1 gen now = Inr (s', out)"
        then obtain out where nf: "next_or_finish s1 gen now = Inr (s', out)"
          by blast
        from next_or_finish_InrD(2,5) [OF nf] c1 st1 show ?thesis
          by (cases "continues s1 gen") (auto simp: one_pending_inv_def)
      qed
    qed
  next
    case (Update u upd now)
    with assms(2) show ?thesis by simp
  qed
  then show ?thesis by (simp only: s'_def)
qed

lemma one_pending_inv_run:
  "one_pending_inv s \<Longrightarrow> list_all carries_text ops \<Longrightarrow> one_pending_inv (run s ops)"
  unfolding run_def
  by (induction ops arbitrary: s) (auto simp: one_pending_inv_step)

text \<open>
  C3, as the code has it. In a session driven from its creation by Start requests and
  by responses that carry text, at most one turn has no response text at any time. And
  a turn whose response text is set is never changed again, by any of the three
  operations. Nothing is promised for a response without text, which is scored but
  leaves its turn without response text.
\<close>

theorem answered_turns_immutable:
  "(list_all carries_text ops \<longrightarrow>
      length (filter pending (responses (run (new_viva_session sid sub st ty) ops))) \<le> 1)
   \<and> (i < length (responses s) \<and> response_text (responses s ! i) \<noteq> None \<longrightarrow>
        i < length (responses (apply_operation s op))
        \<and> responses (apply_operation s op) ! i = responses s ! i)"
  using one_pending_inv_run [OF one_pending_inv_new, of ops sid sub st ty]
    apply_operation_keeps_answered [of i s op]
  by (simp add: one_pending_inv_def)

theorem answered_turns_immutable_witness:
  "list_all carries_text healthy_interview
   \<and> length (filter pending (responses (run example_session healthy_interview))) \<le> 1
   \<and> 0 < length (responses (run example_session [healthy_start, healthy_submit 10]))
   \<and> response_text (responses (run example_session [healthy_start, healthy_submit 10]) ! 0) = Some ''a''
   \<and> responses (apply_operation (run example_session [healthy_start, healthy_submit 10])
                   (healthy_submit 20)) ! 0
       = responses (run example_session [healthy_start, healthy_submit 10]) ! 0"
proof -
  have h: "list_all carries_text healthy_interview"
    by (simp add: healthy_interview_def healthy_start_def healthy_submit_def text_answer_def)
  from answered_turns_immutable [of healthy_interview 1 1 7 MOCK 0
      "run example_session [healthy_start, healthy_submit 10]" "healthy_submit 20"] h
  show ?thesis
    by (simp add: example_session_def [symmetric] two_turn_run)
qed

text \<open>
  C3 as stated fails: a response with neither text nor audio is accepted; after it the
  session has two turns without any response, and one answer is counted.
\<close>

theorem two_unanswered_turns_counterexample:
  "map (\<lambda>r. (response_text r, response_audio_path r))
       (responses (run example_session [healthy_start, empty_submit 10])) = [(None, None), (None, None)]
   \<and> length (filter pending (responses (run example_session [healthy_start, empty_submit 10]))) = 2
   \<and> questions_answered (run example_session [healthy_start, empty_submit 10]) = 1"
  by (simp add: example_defs empty_submit_def empty_answer_def engine_defs pending_def)

section \<open>The limit on the number of questions\<close>

text \<open>
  C1, evaluated on the code. With the default settings the configured maximum is 10
  and the configured minimum 3. A session whose adapter answers every call is still in
  progress after four responses, with five questions asked, and is completed by the
  fifth response: the limit is the literal 5 of line 336, whatever the settings say.
\<close>

theorem fixed_limit_ignores_settings:
  "MAX_VIVA_QUESTIONS settings = 10 \<and> MIN_VIVA_QUESTIONS settings = 3
   \<and> status (run example_session (take 5 healthy_interview)) = IN_PROGRESS
   \<and> questions_asked (run example_session (take 5 healthy_interview)) = 5
   \<and> status (run example_session healthy_interview) = COMPLETED
   \<and> questions_asked (run example_session healthy_interview) = 5
   \<and> length (responses (run example_session healthy_interview)) = 5"
  by (simp add: healthy_interview_run settings_def)

end
